theory Spec2Isabelle
  imports Main "HOL-Library.Word"
begin

section \<open>Instants of time\<close>

text \<open>
  Go's \<open>time.Time\<close> is a point in time together with a location. \<open>Before\<close>,
  \<open>After\<close> and \<open>Equal\<close> compare the points in time only, whereas \<open>==\<close> also
  compares the location. The point in time is an integer count (of nanoseconds since the
  zero time), the location an integer offset; the zero value is instant 0 in UTC.
\<close>

record Time =
  instant :: int
  zone :: int

definition Time_zero :: Time where
  "Time_zero = \<lparr>instant = 0, zone = 0\<rparr>"

definition Before :: "Time \<Rightarrow> Time \<Rightarrow> bool" where
  "Before t u = (instant t < instant u)"

definition After :: "Time \<Rightarrow> Time \<Rightarrow> bool" where
  "After t u = (instant t > instant u)"

definition Time_Equal :: "Time \<Rightarrow> Time \<Rightarrow> bool" where
  "Time_Equal t u = (instant t = instant u)"

section \<open>Time ranges (package go-time)\<close>

text \<open>
  \<open>gtime.NullTime\<close> is a time with a validity flag; \<open>gtime.Range\<close> is read through
  its accessors \<open>Start()\<close> and \<open>End()\<close>, which are the two fields here. The operations
  of the package (\<open>Contains\<close>, \<open>Equal\<close>, the options \<open>Start\<close> and \<open>End\<close>) are not
  part of this repository: the functions below that call them take them as arguments.
\<close>

record NullTime =
  Valid :: bool
  Time :: Time

record Range =
  Start :: NullTime
  End :: NullTime

definition NullTime_zero :: NullTime where
  "NullTime_zero = \<lparr>Valid = False, Time = Time_zero\<rparr>"

definition Range_zero :: Range where
  "Range_zero = \<lparr>Start = NullTime_zero, End = NullTime_zero\<rparr>"

section \<open>Errors\<close>

text \<open>
  The error values of the two packages: \<open>errors.New(msg)\<close>, \<open>account.FieldError\<close> (a
  slice of descriptions) and \<open>balance.DateOutOfAccountTimeRange\<close>. A nil error is
  \<open>None\<close>.
\<close>

type_synonym FieldError = "string list"

datatype error =
  errorString string
| FieldError FieldError
| DateOutOfAccountTimeRange Time Range

definition ErrEmptyBalancesMessage :: string where
  "ErrEmptyBalancesMessage = ''empty Balances''"

definition ErrNoBalances :: string where
  "ErrNoBalances = ''no Balances''"

definition EmptyNameError :: string where
  "EmptyNameError = ''Empty name.''"

section \<open>Package balance\<close>

record Balance =
  Date :: Time
  Amount :: "64 word"

definition Balance_zero :: Balance where
  "Balance_zero = \<lparr>Date = Time_zero, Amount = 0\<rparr>"

definition Balance_Equal :: "Balance \<Rightarrow> Balance \<Rightarrow> bool" where
  "Balance_Equal b ob = (Amount b = Amount ob \<and> Time_Equal (Date b) (Date ob))"

type_synonym Balances = "Balance list"

text \<open>The body of the \<open>range\<close> loop of \<open>Earliest\<close>, with the running value \<open>e\<close>.\<close>

fun Earliest_loop :: "Balance \<Rightarrow> Balances \<Rightarrow> Balance" where
  "Earliest_loop e [] = e"
| "Earliest_loop e (b # bs) =
     Earliest_loop (if Before (Date b) (Date e) then b else e) bs"

definition Earliest :: "Balances \<Rightarrow> Balance \<times> error option" where
  "Earliest bs =
     (if length bs = 0 then (Balance_zero, Some (errorString ErrEmptyBalancesMessage))
      else (Earliest_loop (bs ! 0) bs, None))"

text \<open>The body of the \<open>range\<close> loop of \<open>Latest\<close>, with the running value \<open>l\<close>.\<close>

fun Latest_loop :: "Balance \<Rightarrow> Balances \<Rightarrow> Balance" where
  "Latest_loop l [] = l"
| "Latest_loop l (b # bs) =
     Latest_loop (if \<not> After (Date l) (Date b) then b else l) bs"

definition Latest :: "Balances \<Rightarrow> Balance \<times> error option" where
  "Latest bs =
     (if length bs = 0 then (Balance_zero, Some (errorString ErrEmptyBalancesMessage))
      else (Latest_loop (bs ! 0) bs, None))"

text \<open>
  \<open>AtTime\<close> keeps a pointer \<open>at\<close> into the slice: \<open>None\<close> is the nil pointer,
  \<open>Some k\<close> is \<open>&bs[k]\<close>. The loop runs over the indices \<open>i\<close> of the slice.
\<close>

function AtTime_loop :: "Balances \<Rightarrow> Time \<Rightarrow> nat \<Rightarrow> nat option \<Rightarrow> nat option" where
  "AtTime_loop bs t i at =
     (if i < length bs then
        (if After (Date (bs ! i)) t then AtTime_loop bs t (i + 1) at
         else
           (case (case at of None \<Rightarrow> i | Some k \<Rightarrow> k) of k \<Rightarrow>
              AtTime_loop bs t (i + 1)
                (if \<not> After (Date (bs ! k)) (Date (bs ! i)) then Some i else Some k)))
      else at)"
  by pat_completeness auto
termination
  by (relation "measure (\<lambda>(bs, t, i, at). length bs - i)") auto

declare AtTime_loop.simps [simp del]

definition AtTime :: "Balances \<Rightarrow> Time \<Rightarrow> Balance \<times> error option" where
  "AtTime bs t =
     (case AtTime_loop bs t 0 None of
        None \<Rightarrow> (Balance_zero, Some (errorString ErrNoBalances))
      | Some k \<Rightarrow> (bs ! k, None))"

section \<open>Package account\<close>

subsection \<open>FieldError\<close>

text \<open>
  The loop of \<open>FieldError.Equal\<close> over the indices of \<open>e\<close>. It is entered only when
  both slices have the same length, so every read of \<open>other\<close> is in range.
\<close>

function FieldError_Equal_loop :: "FieldError \<Rightarrow> FieldError \<Rightarrow> nat \<Rightarrow> bool" where
  "FieldError_Equal_loop e other i =
     (if i < length e then
        (if e ! i \<noteq> other ! i then False else FieldError_Equal_loop e other (i + 1))
      else True)"
  by pat_completeness auto
termination
  by (relation "measure (\<lambda>(e, other, i). length e - i)") auto

declare FieldError_Equal_loop.simps [simp del]

definition FieldError_Equal :: "FieldError \<Rightarrow> FieldError \<Rightarrow> bool" where
  "FieldError_Equal e other =
     (if length e \<noteq> length other then False else FieldError_Equal_loop e other 0)"

subsection \<open>Account\<close>

text \<open>
  The currency code is a value of package go-money; the account only stores it, so its
  type is a parameter.
\<close>

record 'c Account =
  name :: string
  timeRange :: Range
  currencyCode :: 'c

definition Name :: "'c Account \<Rightarrow> string" where
  "Name a = name a"

definition Opened :: "'c Account \<Rightarrow> Time" where
  "Opened a = Time (Start (timeRange a))"

definition Closed :: "'c Account \<Rightarrow> NullTime" where
  "Closed a = End (timeRange a)"

definition TimeRange :: "'c Account \<Rightarrow> Range" where
  "TimeRange a = timeRange a"

definition IsOpen :: "'c Account \<Rightarrow> bool" where
  "IsOpen a = (\<not> Valid (End (timeRange a)))"

definition CurrencyCode :: "'c Account \<Rightarrow> 'c" where
  "CurrencyCode a = currencyCode a"

definition validate :: "'c Account \<Rightarrow> error option" where
  "validate a =
     (let fieldErrorDescriptions =
            (if length (name a) = 0 then [] @ [EmptyNameError] else [])
      in if length fieldErrorDescriptions > 0 then Some (FieldError fieldErrorDescriptions)
         else None)"

text \<open>
  \<open>ValidateBalance\<close> calls \<open>Contains\<close> of the account's time range; the method of
  package go-time is the first argument.
\<close>

definition ValidateBalance ::
  "(Range \<Rightarrow> Time \<Rightarrow> bool) \<Rightarrow> 'c Account \<Rightarrow> Balance \<Rightarrow> error option" where
  "ValidateBalance Contains a b =
     (case validate a of
        Some err \<Rightarrow> Some err
      | None \<Rightarrow>
          if \<not> Contains (timeRange a) (Date b) \<and>
             (\<not> Valid (Closed a) \<or> \<not> Time_Equal (Time (Closed a)) (Date b))
          then Some (DateOutOfAccountTimeRange (Date b) (timeRange a))
          else None)"

text \<open>
  \<open>Equal\<close> compares the time ranges with \<open>Equal\<close> of package go-time, the first
  argument here. The \<open>switch\<close> takes the first case whose condition holds.
\<close>

definition Account_Equal ::
  "(Range \<Rightarrow> Range \<Rightarrow> bool) \<Rightarrow> 'c Account \<Rightarrow> 'c Account \<Rightarrow> bool" where
  "Account_Equal Range_Equal a b =
     (if name a \<noteq> Name b then False
      else if \<not> Range_Equal (timeRange a) (TimeRange b) then False
      else True)"

subsection \<open>Options and construction\<close>

text \<open>
  An \<open>Option\<close> is a function on a pointer to an account that returns an error: here a
  function from the account to the account it leaves behind and the error. A nil option
  is \<open>None\<close>. The options of package go-time act on a range in the same way.
\<close>

type_synonym 'c Option = "'c Account \<Rightarrow> 'c Account \<times> error option"

type_synonym RangeOption = "Range \<Rightarrow> Range \<times> error option"

definition CloseTime :: "(Time \<Rightarrow> RangeOption) \<Rightarrow> Time \<Rightarrow> 'c Option" where
  "CloseTime gtime_End t =
     (\<lambda>a. case gtime_End t (timeRange a) of (tr, err) \<Rightarrow> (a\<lparr>timeRange := tr\<rparr>, err))"

text \<open>
  The loop of \<open>New\<close> over the options: nil options are skipped, the first error stops
  the loop and is returned.
\<close>

fun applyOptions :: "'c Option option list \<Rightarrow> 'c Account \<Rightarrow> 'c Account \<times> error option" where
  "applyOptions [] a = (a, None)"
| "applyOptions (None # os) a = applyOptions os a"
| "applyOptions (Some opt # os) a =
     (case opt a of
        (a', Some err) \<Rightarrow> (a', Some err)
      | (a', None) \<Rightarrow> applyOptions os a')"

text \<open>
  \<open>New\<close> returns a pointer and an error: \<open>None\<close> in the first component is the nil
  pointer. \<open>strings.TrimSpace\<close> and \<open>gtime.Start\<close> are the first two arguments.
\<close>

definition New ::
  "(string \<Rightarrow> string) \<Rightarrow> (Time \<Rightarrow> RangeOption) \<Rightarrow>
   string \<Rightarrow> 'c \<Rightarrow> Time \<Rightarrow> 'c Option option list \<Rightarrow> 'c Account option \<times> error option" where
  "New TrimSpace gtime_Start nm currencyCode' opened os =
     (let trimmed = TrimSpace nm in
      if length trimmed = 0 then (None, Some (errorString EmptyNameError))
      else
        let a = \<lparr>name = trimmed, timeRange = Range_zero, currencyCode = currencyCode'\<rparr> in
        case gtime_Start opened (timeRange a) of
          (tr, Some err) \<Rightarrow> (None, Some err)
        | (tr, None) \<Rightarrow>
            (case applyOptions os (a\<lparr>timeRange := tr\<rparr>) of
               (a', Some err) \<Rightarrow> (None, Some err)
             | (a', None) \<Rightarrow>
                 (case validate a' of
                    Some err \<Rightarrow> (None, Some err)
                  | None \<Rightarrow> (Some a', None))))"

section \<open>Specification predicates\<close>

text \<open>
  Index \<open>i\<close> is the first position of \<open>bs\<close> that holds the minimal date, or the last
  position that holds the maximal date.
\<close>

definition first_min :: "Balances \<Rightarrow> nat \<Rightarrow> bool" where
  "first_min bs i \<longleftrightarrow> i < length bs \<and>
     (\<forall>j<length bs. instant (Date (bs ! i)) \<le> instant (Date (bs ! j))) \<and>
     (\<forall>j<i. instant (Date (bs ! i)) < instant (Date (bs ! j)))"

definition last_max :: "Balances \<Rightarrow> nat \<Rightarrow> bool" where
  "last_max bs i \<longleftrightarrow> i < length bs \<and>
     (\<forall>j<length bs. instant (Date (bs ! j)) \<le> instant (Date (bs ! i))) \<and>
     (\<forall>j<length bs. i < j \<longrightarrow> instant (Date (bs ! j)) < instant (Date (bs ! i)))"

text \<open>
  Among the first \<open>n\<close> balances of \<open>bs\<close>, index \<open>k\<close> is the last position that holds
  the maximal date among those dated at or before \<open>t\<close>.
\<close>

definition last_max_le :: "Balances \<Rightarrow> Time \<Rightarrow> nat \<Rightarrow> nat \<Rightarrow> bool" where
  "last_max_le bs t n k \<longleftrightarrow> k < n \<and> instant (Date (bs ! k)) \<le> instant t \<and>
     (\<forall>j<n. instant (Date (bs ! j)) \<le> instant t \<longrightarrow>
        instant (Date (bs ! j)) \<le> instant (Date (bs ! k))) \<and>
     (\<forall>j<n. k < j \<and> instant (Date (bs ! j)) \<le> instant t \<longrightarrow>
        instant (Date (bs ! j)) < instant (Date (bs ! k)))"

text \<open>The invariant of the loop of \<open>AtTime\<close> after \<open>n\<close> iterations.\<close>

definition AtTime_inv :: "Balances \<Rightarrow> Time \<Rightarrow> nat \<Rightarrow> nat option \<Rightarrow> bool" where
  "AtTime_inv bs t n at =
     (case at of
        None \<Rightarrow> \<forall>j<n. instant t < instant (Date (bs ! j))
      | Some k \<Rightarrow> last_max_le bs t n k)"

section \<open>Sample library functions\<close>

text \<open>
  Simple instances of the library functions that the account functions take as
  arguments, for running those functions on concrete inputs: a trim of blanks, options
  that set the start and the end of a range (the end may not precede a valid start), a
  containment check that includes the start and excludes the end, and an equality of
  ranges by validity and instant.
\<close>

definition sample_TrimSpace :: "string \<Rightarrow> string" where
  "sample_TrimSpace s =
     rev (dropWhile (\<lambda>c. c = CHR '' '') (rev (dropWhile (\<lambda>c. c = CHR '' '') s)))"

definition sample_Start :: "Time \<Rightarrow> RangeOption" where
  "sample_Start t r = (r\<lparr>Start := \<lparr>Valid = True, Time = t\<rparr>\<rparr>, None)"

definition sample_End :: "Time \<Rightarrow> RangeOption" where
  "sample_End t r =
     (if Valid (Start r) \<and> Before t (Time (Start r))
      then (r, Some (errorString ''end before start''))
      else (r\<lparr>End := \<lparr>Valid = True, Time = t\<rparr>\<rparr>, None))"

definition sample_Contains :: "Range \<Rightarrow> Time \<Rightarrow> bool" where
  "sample_Contains r t =
     ((if Valid (Start r) then \<not> After (Time (Start r)) t else True) \<and>
      (if Valid (End r) then After (Time (End r)) t else True))"

definition sample_NullTime_Equal :: "NullTime \<Rightarrow> NullTime \<Rightarrow> bool" where
  "sample_NullTime_Equal a b =
     (Valid a = Valid b \<and> (if Valid a then Time_Equal (Time a) (Time b) else True))"

definition sample_Range_Equal :: "Range \<Rightarrow> Range \<Rightarrow> bool" where
  "sample_Range_Equal r s =
     (sample_NullTime_Equal (Start r) (Start s) \<and> sample_NullTime_Equal (End r) (End s))"

section \<open>Properties of the queries over Balances\<close>

subsection \<open>Earliest and Latest\<close>

lemma first_min_snoc:
  assumes "first_min pre k"
  shows "first_min (pre @ [b])
           (if Before (Date b) (Date (pre ! k)) then length pre else k)"
  using assms unfolding first_min_def Before_def
  by (auto simp: nth_append less_Suc_eq)

lemma Earliest_loop_first_min:
  "first_min pre k \<Longrightarrow>
     \<exists>i. first_min (pre @ rest) i \<and> Earliest_loop (pre ! k) rest = (pre @ rest) ! i"
proof (induction rest arbitrary: pre k)
  case Nil
  then show ?case by auto
next
  case (Cons b rest)
  let ?k = "if Before (Date b) (Date (pre ! k)) then length pre else k"
  have fm: "first_min (pre @ [b]) ?k" by (rule first_min_snoc [OF Cons.prems])
  have e: "(if Before (Date b) (Date (pre ! k)) then b else pre ! k) = (pre @ [b]) ! ?k"
    using Cons.prems by (auto simp: first_min_def nth_append)
  from Cons.IH [OF fm] obtain i where
    "first_min ((pre @ [b]) @ rest) i"
    "Earliest_loop ((pre @ [b]) ! ?k) rest = ((pre @ [b]) @ rest) ! i" by blast
  then show ?case using e by (auto simp del: nth_append)
qed

lemma Earliest_first_min:
  assumes "bs \<noteq> []"
  shows "\<exists>i. first_min bs i \<and> Earliest bs = (bs ! i, None)"
proof -
  obtain b bs' where bs: "bs = b # bs'" using assms by (cases bs) auto
  have fm: "first_min [b] 0" by (simp add: first_min_def)
  from Earliest_loop_first_min [OF fm, of bs'] obtain i where
    "first_min ([b] @ bs') i" "Earliest_loop ([b] ! 0) bs' = ([b] @ bs') ! i" by blast
  then show ?thesis by (auto simp: Earliest_def bs Before_def)
qed

lemma last_max_snoc:
  assumes "last_max pre k"
  shows "last_max (pre @ [b])
           (if \<not> After (Date (pre ! k)) (Date b) then length pre else k)"
  using assms unfolding last_max_def After_def
  by (auto simp: nth_append less_Suc_eq)

lemma Latest_loop_last_max:
  "last_max pre k \<Longrightarrow>
     \<exists>i. last_max (pre @ rest) i \<and> Latest_loop (pre ! k) rest = (pre @ rest) ! i"
proof (induction rest arbitrary: pre k)
  case Nil
  then show ?case by auto
next
  case (Cons b rest)
  let ?k = "if \<not> After (Date (pre ! k)) (Date b) then length pre else k"
  have fm: "last_max (pre @ [b]) ?k" by (rule last_max_snoc [OF Cons.prems])
  have e: "(if \<not> After (Date (pre ! k)) (Date b) then b else pre ! k) = (pre @ [b]) ! ?k"
    using Cons.prems by (auto simp: last_max_def nth_append)
  from Cons.IH [OF fm] obtain i where
    "last_max ((pre @ [b]) @ rest) i"
    "Latest_loop ((pre @ [b]) ! ?k) rest = ((pre @ [b]) @ rest) ! i" by blast
  then show ?case using e by auto
qed

lemma Latest_last_max:
  assumes "bs \<noteq> []"
  shows "\<exists>i. last_max bs i \<and> Latest bs = (bs ! i, None)"
proof -
  obtain b bs' where bs: "bs = b # bs'" using assms by (cases bs) auto
  have fm: "last_max [b] 0" by (simp add: last_max_def)
  from Latest_loop_last_max [OF fm, of bs'] obtain i where
    "last_max ([b] @ bs') i" "Latest_loop ([b] ! 0) bs' = ([b] @ bs') ! i" by blast
  then show ?thesis by (auto simp: Latest_def bs After_def)
qed

subsection \<open>The loop of AtTime\<close>

lemma AtTime_inv_skip:
  "AtTime_inv bs t i at \<Longrightarrow> After (Date (bs ! i)) t \<Longrightarrow> AtTime_inv bs t (i + 1) at"
  by (auto simp: AtTime_inv_def last_max_le_def After_def less_Suc_eq split: option.splits)

lemma AtTime_inv_take:
  "AtTime_inv bs t i at \<Longrightarrow> \<not> After (Date (bs ! i)) t \<Longrightarrow>
   k = (case at of None \<Rightarrow> i | Some k \<Rightarrow> k) \<Longrightarrow>
   AtTime_inv bs t (i + 1)
     (if \<not> After (Date (bs ! k)) (Date (bs ! i)) then Some i else Some k)"
  by (auto simp: AtTime_inv_def last_max_le_def After_def less_Suc_eq split: option.splits)

lemma AtTime_loop_done: "\<not> i < length bs \<Longrightarrow> AtTime_loop bs t i at = at"
  by (subst AtTime_loop.simps) simp

lemma AtTime_loop_skip:
  "i < length bs \<Longrightarrow> After (Date (bs ! i)) t \<Longrightarrow>
     AtTime_loop bs t i at = AtTime_loop bs t (i + 1) at"
  by (subst AtTime_loop.simps) simp

lemma AtTime_loop_take:
  "i < length bs \<Longrightarrow> \<not> After (Date (bs ! i)) t \<Longrightarrow>
   k = (case at of None \<Rightarrow> i | Some k \<Rightarrow> k) \<Longrightarrow>
     AtTime_loop bs t i at =
     AtTime_loop bs t (i + 1)
       (if \<not> After (Date (bs ! k)) (Date (bs ! i)) then Some i else Some k)"
  by (subst AtTime_loop.simps) simp

lemma AtTime_loop_inv:
  "AtTime_inv bs t i at \<Longrightarrow> i \<le> length bs \<Longrightarrow>
     AtTime_inv bs t (length bs) (AtTime_loop bs t i at)"
proof (induction bs t i at rule: AtTime_loop.induct)
  case (1 bs t i at)
  show ?case
  proof (cases "i < length bs")
    case False
    with "1.prems" show ?thesis by (simp add: AtTime_loop_done)
  next
    case True
    then have le: "i + 1 \<le> length bs" by simp
    show ?thesis
    proof (cases "After (Date (bs ! i)) t")
      case A: True
      have "AtTime_inv bs t (length bs) (AtTime_loop bs t (i + 1) at)"
        by (rule "1.IH"(1) [OF True A AtTime_inv_skip [OF "1.prems"(1) A] le])
      then show ?thesis by (simp only: AtTime_loop_skip [OF True A])
    next
      case A: False
      have "AtTime_inv bs t (length bs)
              (AtTime_loop bs t (i + 1)
                (if \<not> After (Date (bs ! (case at of None \<Rightarrow> i | Some k \<Rightarrow> k))) (Date (bs ! i))
                 then Some i else Some (case at of None \<Rightarrow> i | Some k \<Rightarrow> k)))"
        by (rule "1.IH"(2) [OF True A AtTime_inv_take [OF "1.prems"(1) A refl] le])
      then show ?thesis by (simp only: AtTime_loop_take [OF True A refl])
    qed
  qed
qed

lemma AtTime_result:
  "AtTime_inv bs t (length bs) (AtTime_loop bs t 0 None)"
  by (rule AtTime_loop_inv) (simp_all add: AtTime_inv_def)

subsection \<open>Earliest\<close>

text \<open>
  C2. \<open>Earliest\<close> of the empty collection returns the zero Balance and the
  empty-collection error. Of a non-empty collection it returns, without error, the
  Balance at the first position that holds the minimal date: no Balance is dated before
  it, and every Balance at an earlier position is dated strictly after it.
\<close>

theorem Earliest_minimal_first:
  "(bs = [] \<longrightarrow> Earliest bs = (Balance_zero, Some (errorString ErrEmptyBalancesMessage))) \<and>
   (bs \<noteq> [] \<longrightarrow>
      (\<exists>i<length bs. Earliest bs = (bs ! i, None) \<and>
         (\<forall>j<length bs. instant (Date (bs ! i)) \<le> instant (Date (bs ! j))) \<and>
         (\<forall>j<i. instant (Date (bs ! i)) < instant (Date (bs ! j)))))"
proof (intro conjI impI)
  assume "bs = []"
  then show "Earliest bs = (Balance_zero, Some (errorString ErrEmptyBalancesMessage))"
    by (simp add: Earliest_def)
next
  assume "bs \<noteq> []"
  then obtain i where "first_min bs i" "Earliest bs = (bs ! i, None)"
    using Earliest_first_min by blast
  then show "\<exists>i<length bs. Earliest bs = (bs ! i, None) \<and>
         (\<forall>j<length bs. instant (Date (bs ! i)) \<le> instant (Date (bs ! j))) \<and>
         (\<forall>j<i. instant (Date (bs ! i)) < instant (Date (bs ! j)))"
    unfolding first_min_def by blast
qed

theorem Earliest_minimal_first_witness:
  "Earliest [] = (Balance_zero, Some (errorString ''empty Balances'')) \<and>
   [\<lparr>Date = \<lparr>instant = 7, zone = 0\<rparr>, Amount = 10\<rparr>,
    \<lparr>Date = \<lparr>instant = 7, zone = 0\<rparr>, Amount = 20\<rparr>] \<noteq> [] \<and>
   Earliest [\<lparr>Date = \<lparr>instant = 7, zone = 0\<rparr>, Amount = 10\<rparr>,
             \<lparr>Date = \<lparr>instant = 7, zone = 0\<rparr>, Amount = 20\<rparr>]
     = (\<lparr>Date = \<lparr>instant = 7, zone = 0\<rparr>, Amount = 10\<rparr>, None)"
  using Earliest_minimal_first [of "[]"]
    Earliest_minimal_first [of "[\<lparr>Date = \<lparr>instant = 7, zone = 0\<rparr>, Amount = 10\<rparr>,
                                 \<lparr>Date = \<lparr>instant = 7, zone = 0\<rparr>, Amount = 20\<rparr>]"]
  by (auto simp: ErrEmptyBalancesMessage_def less_Suc_eq)

subsection \<open>Latest\<close>

text \<open>
  C3. \<open>Latest\<close> of the empty collection returns the zero Balance and the
  empty-collection error. Of a non-empty collection it returns, without error, the
  Balance at the last position that holds the maximal date: no Balance is dated after
  it, and every Balance at a later position is dated strictly before it.
\<close>

theorem Latest_maximal_last:
  "(bs = [] \<longrightarrow> Latest bs = (Balance_zero, Some (errorString ErrEmptyBalancesMessage))) \<and>
   (bs \<noteq> [] \<longrightarrow>
      (\<exists>i<length bs. Latest bs = (bs ! i, None) \<and>
         (\<forall>j<length bs. instant (Date (bs ! j)) \<le> instant (Date (bs ! i))) \<and>
         (\<forall>j<length bs. i < j \<longrightarrow> instant (Date (bs ! j)) < instant (Date (bs ! i)))))"
proof (intro conjI impI)
  assume "bs = []"
  then show "Latest bs = (Balance_zero, Some (errorString ErrEmptyBalancesMessage))"
    by (simp add: Latest_def)
next
  assume "bs \<noteq> []"
  then obtain i where "last_max bs i" "Latest bs = (bs ! i, None)"
    using Latest_last_max by blast
  then show "\<exists>i<length bs. Latest bs = (bs ! i, None) \<and>
         (\<forall>j<length bs. instant (Date (bs ! j)) \<le> instant (Date (bs ! i))) \<and>
         (\<forall>j<length bs. i < j \<longrightarrow> instant (Date (bs ! j)) < instant (Date (bs ! i)))"
    unfolding last_max_def by blast
qed

theorem Latest_maximal_last_witness:
  "Latest [] = (Balance_zero, Some (errorString ''empty Balances'')) \<and>
   [\<lparr>Date = \<lparr>instant = 7, zone = 0\<rparr>, Amount = 10\<rparr>,
    \<lparr>Date = \<lparr>instant = 7, zone = 0\<rparr>, Amount = 20\<rparr>] \<noteq> [] \<and>
   Latest [\<lparr>Date = \<lparr>instant = 7, zone = 0\<rparr>, Amount = 10\<rparr>,
           \<lparr>Date = \<lparr>instant = 7, zone = 0\<rparr>, Amount = 20\<rparr>]
     = (\<lparr>Date = \<lparr>instant = 7, zone = 0\<rparr>, Amount = 20\<rparr>, None)"
  using Latest_maximal_last [of "[]"]
    Latest_maximal_last [of "[\<lparr>Date = \<lparr>instant = 7, zone = 0\<rparr>, Amount = 10\<rparr>,
                              \<lparr>Date = \<lparr>instant = 7, zone = 0\<rparr>, Amount = 20\<rparr>]"]
  by (auto simp: ErrEmptyBalancesMessage_def less_Suc_eq)

subsection \<open>AtTime\<close>

text \<open>
  C1. When some Balance of \<open>bs\<close> is dated at or before \<open>t\<close>, \<open>AtTime\<close> returns,
  without error, the Balance at the last position that holds the maximal date among the
  Balances dated at or before \<open>t\<close>. When no Balance qualifies (the empty collection
  included), it returns the zero Balance and the no-Balances error.
\<close>

theorem AtTime_latest_at_or_before:
  "((\<exists>j<length bs. instant (Date (bs ! j)) \<le> instant t) \<longrightarrow>
      (\<exists>i<length bs. AtTime bs t = (bs ! i, None) \<and>
         instant (Date (bs ! i)) \<le> instant t \<and>
         (\<forall>j<length bs. instant (Date (bs ! j)) \<le> instant t \<longrightarrow>
            instant (Date (bs ! j)) \<le> instant (Date (bs ! i))) \<and>
         (\<forall>j<length bs. i < j \<and> instant (Date (bs ! j)) \<le> instant t \<longrightarrow>
            instant (Date (bs ! j)) < instant (Date (bs ! i))))) \<and>
   (\<not> (\<exists>j<length bs. instant (Date (bs ! j)) \<le> instant t) \<longrightarrow>
      AtTime bs t = (Balance_zero, Some (errorString ErrNoBalances)))"
proof (cases "AtTime_loop bs t 0 None")
  case None
  with AtTime_result [of bs t]
  have none: "\<forall>j<length bs. instant t < instant (Date (bs ! j))"
    by (simp add: AtTime_inv_def)
  have "AtTime bs t = (Balance_zero, Some (errorString ErrNoBalances))"
    using None by (simp add: AtTime_def)
  moreover have "\<not> (\<exists>j<length bs. instant (Date (bs ! j)) \<le> instant t)"
    using none by force
  ultimately show ?thesis by blast
next
  case (Some k)
  with AtTime_result [of bs t] have lm: "last_max_le bs t (length bs) k"
    by (simp add: AtTime_inv_def)
  have r: "AtTime bs t = (bs ! k, None)"
    using Some by (simp add: AtTime_def)
  have q: "\<exists>j<length bs. instant (Date (bs ! j)) \<le> instant t"
    using lm unfolding last_max_le_def by blast
  have "\<exists>i<length bs. AtTime bs t = (bs ! i, None) \<and>
         instant (Date (bs ! i)) \<le> instant t \<and>
         (\<forall>j<length bs. instant (Date (bs ! j)) \<le> instant t \<longrightarrow>
            instant (Date (bs ! j)) \<le> instant (Date (bs ! i))) \<and>
         (\<forall>j<length bs. i < j \<and> instant (Date (bs ! j)) \<le> instant t \<longrightarrow>
            instant (Date (bs ! j)) < instant (Date (bs ! i)))"
    using lm r unfolding last_max_le_def by blast
  with q show ?thesis by blast
qed

theorem AtTime_latest_at_or_before_witness:
  "AtTime [] \<lparr>instant = 5, zone = 0\<rparr> = (Balance_zero, Some (errorString ''no Balances'')) \<and>
   AtTime [\<lparr>Date = \<lparr>instant = 2000, zone = 0\<rparr>, Amount = 8237\<rparr>] \<lparr>instant = 1000, zone = 0\<rparr>
     = (Balance_zero, Some (errorString ''no Balances'')) \<and>
   AtTime [\<lparr>Date = \<lparr>instant = 2001, zone = 0\<rparr>, Amount = 1\<rparr>,
           \<lparr>Date = \<lparr>instant = 2001, zone = 0\<rparr>, Amount = 10\<rparr>,
           \<lparr>Date = \<lparr>instant = 2000, zone = 0\<rparr>, Amount = 8237\<rparr>,
           \<lparr>Date = \<lparr>instant = 2003, zone = 0\<rparr>, Amount = 489\<rparr>] \<lparr>instant = 2002, zone = 0\<rparr>
     = (\<lparr>Date = \<lparr>instant = 2001, zone = 0\<rparr>, Amount = 10\<rparr>, None)"
proof -
  let ?bs = "[\<lparr>Date = \<lparr>instant = 2001, zone = 0\<rparr>, Amount = 1\<rparr>,
              \<lparr>Date = \<lparr>instant = 2001, zone = 0\<rparr>, Amount = 10\<rparr>,
              \<lparr>Date = \<lparr>instant = 2000, zone = 0\<rparr>, Amount = 8237\<rparr>,
              \<lparr>Date = \<lparr>instant = 2003, zone = 0\<rparr>, Amount = 489\<rparr>] :: Balances"
  let ?t = "\<lparr>instant = 2002, zone = 0\<rparr> :: Time"
  have a: "AtTime [] \<lparr>instant = 5, zone = 0\<rparr> = (Balance_zero, Some (errorString ''no Balances''))"
    using AtTime_latest_at_or_before [of "[]" "\<lparr>instant = 5, zone = 0\<rparr>"]
    by (simp add: ErrNoBalances_def)
  have b: "AtTime [\<lparr>Date = \<lparr>instant = 2000, zone = 0\<rparr>, Amount = 8237\<rparr>] \<lparr>instant = 1000, zone = 0\<rparr>
     = (Balance_zero, Some (errorString ''no Balances''))"
    using AtTime_latest_at_or_before
      [of "[\<lparr>Date = \<lparr>instant = 2000, zone = 0\<rparr>, Amount = 8237\<rparr>]" "\<lparr>instant = 1000, zone = 0\<rparr>"]
    by (simp add: ErrNoBalances_def)
  have q: "\<exists>j<length ?bs. instant (Date (?bs ! j)) \<le> instant ?t"
    by (rule exI [of _ 0]) simp
  with AtTime_latest_at_or_before [of ?bs ?t] obtain i where
    i: "i < length ?bs" and r: "AtTime ?bs ?t = (?bs ! i, None)"
    and le: "instant (Date (?bs ! i)) \<le> instant ?t"
    and mx: "\<forall>j<length ?bs. instant (Date (?bs ! j)) \<le> instant ?t \<longrightarrow>
            instant (Date (?bs ! j)) \<le> instant (Date (?bs ! i))"
    and lst: "\<forall>j<length ?bs. i < j \<and> instant (Date (?bs ! j)) \<le> instant ?t \<longrightarrow>
            instant (Date (?bs ! j)) < instant (Date (?bs ! i))"
    by blast
  from i have "i = 0 \<or> i = 1 \<or> i = 2 \<or> i = 3" by (simp add: less_Suc_eq numeral_eq_Suc) 
  moreover have "i \<noteq> 0" using lst [rule_format, of 1] by auto
  moreover have "i \<noteq> 2" using mx [rule_format, of 0] by auto
  moreover have "i \<noteq> 3" using le by auto
  ultimately have "i = 1" by blast
  with r have c: "AtTime ?bs ?t = (\<lparr>Date = \<lparr>instant = 2001, zone = 0\<rparr>, Amount = 10\<rparr>, None)"
    by simp
  from a b c show ?thesis by blast
qed

subsection \<open>Membership\<close>

text \<open>
  C10. For a non-empty collection, \<open>Earliest\<close> and \<open>Latest\<close> succeed and the Balance
  each returns is an element of the collection. Whenever \<open>AtTime\<close> returns no error,
  the Balance it returns is an element of the collection dated at or before the queried
  time.
\<close>

theorem queries_return_members:
  "(bs \<noteq> [] \<longrightarrow>
      snd (Earliest bs) = None \<and> fst (Earliest bs) \<in> set bs \<and>
      snd (Latest bs) = None \<and> fst (Latest bs) \<in> set bs) \<and>
   (snd (AtTime bs t) = None \<longrightarrow>
      fst (AtTime bs t) \<in> set bs \<and> instant (Date (fst (AtTime bs t))) \<le> instant t)"
proof (intro conjI impI)
  assume ne: "bs \<noteq> []"
  from Earliest_first_min [OF ne] obtain i where
    i: "first_min bs i" "Earliest bs = (bs ! i, None)" by blast
  from Latest_last_max [OF ne] obtain k where
    k: "last_max bs k" "Latest bs = (bs ! k, None)" by blast
  show "snd (Earliest bs) = None" using i by simp
  show "fst (Earliest bs) \<in> set bs" using i by (simp add: first_min_def)
  show "snd (Latest bs) = None" using k by simp
  show "fst (Latest bs) \<in> set bs" using k by (simp add: last_max_def)
next
  assume ok: "snd (AtTime bs t) = None"
  then obtain k where k: "AtTime_loop bs t 0 None = Some k"
    by (cases "AtTime_loop bs t 0 None") (auto simp: AtTime_def)
  with AtTime_result [of bs t] have lm: "last_max_le bs t (length bs) k"
    by (simp add: AtTime_inv_def)
  have r: "AtTime bs t = (bs ! k, None)" using k by (simp add: AtTime_def)
  show "fst (AtTime bs t) \<in> set bs" using lm r by (simp add: last_max_le_def)
  show "instant (Date (fst (AtTime bs t))) \<le> instant t"
    using lm r by (simp add: last_max_le_def)
qed

lemma AtTime_sample:
  "AtTime [\<lparr>Date = \<lparr>instant = 2001, zone = 0\<rparr>, Amount = 10\<rparr>,
           \<lparr>Date = \<lparr>instant = 2003, zone = 0\<rparr>, Amount = 489\<rparr>] \<lparr>instant = 2002, zone = 0\<rparr>
   = (\<lparr>Date = \<lparr>instant = 2001, zone = 0\<rparr>, Amount = 10\<rparr>, None)"
  by (simp add: AtTime_def AtTime_loop.simps After_def)

theorem queries_return_members_witness:
  "[\<lparr>Date = \<lparr>instant = 2001, zone = 0\<rparr>, Amount = 10\<rparr>,
    \<lparr>Date = \<lparr>instant = 2003, zone = 0\<rparr>, Amount = 489\<rparr>] \<noteq> [] \<and>
   snd (AtTime [\<lparr>Date = \<lparr>instant = 2001, zone = 0\<rparr>, Amount = 10\<rparr>,
                \<lparr>Date = \<lparr>instant = 2003, zone = 0\<rparr>, Amount = 489\<rparr>] \<lparr>instant = 2002, zone = 0\<rparr>) = None \<and>
   fst (Earliest [\<lparr>Date = \<lparr>instant = 2001, zone = 0\<rparr>, Amount = 10\<rparr>,
                  \<lparr>Date = \<lparr>instant = 2003, zone = 0\<rparr>, Amount = 489\<rparr>])
     \<in> set [\<lparr>Date = \<lparr>instant = 2001, zone = 0\<rparr>, Amount = 10\<rparr>,
             \<lparr>Date = \<lparr>instant = 2003, zone = 0\<rparr>, Amount = 489\<rparr>] \<and>
   fst (Latest [\<lparr>Date = \<lparr>instant = 2001, zone = 0\<rparr>, Amount = 10\<rparr>,
                \<lparr>Date = \<lparr>instant = 2003, zone = 0\<rparr>, Amount = 489\<rparr>])
     \<in> set [\<lparr>Date = \<lparr>instant = 2001, zone = 0\<rparr>, Amount = 10\<rparr>,
             \<lparr>Date = \<lparr>instant = 2003, zone = 0\<rparr>, Amount = 489\<rparr>] \<and>
   fst (AtTime [\<lparr>Date = \<lparr>instant = 2001, zone = 0\<rparr>, Amount = 10\<rparr>,
                \<lparr>Date = \<lparr>instant = 2003, zone = 0\<rparr>, Amount = 489\<rparr>] \<lparr>instant = 2002, zone = 0\<rparr>)
     \<in> set [\<lparr>Date = \<lparr>instant = 2001, zone = 0\<rparr>, Amount = 10\<rparr>,
             \<lparr>Date = \<lparr>instant = 2003, zone = 0\<rparr>, Amount = 489\<rparr>] \<and>
   instant (Date (fst (AtTime [\<lparr>Date = \<lparr>instant = 2001, zone = 0\<rparr>, Amount = 10\<rparr>,
                \<lparr>Date = \<lparr>instant = 2003, zone = 0\<rparr>, Amount = 489\<rparr>] \<lparr>instant = 2002, zone = 0\<rparr>)))
     \<le> instant \<lparr>instant = 2002, zone = 0\<rparr>"
proof -
  let ?bs = "[\<lparr>Date = \<lparr>instant = 2001, zone = 0\<rparr>, Amount = 10\<rparr>,
              \<lparr>Date = \<lparr>instant = 2003, zone = 0\<rparr>, Amount = 489\<rparr>] :: Balances"
  let ?t = "\<lparr>instant = 2002, zone = 0\<rparr> :: Time"
  have ne: "?bs \<noteq> []" by simp
  have ok: "snd (AtTime ?bs ?t) = None" by (simp only: AtTime_sample snd_conv)
  from queries_return_members [of ?bs ?t] ne ok show ?thesis by blast
qed

section \<open>Properties of FieldError\<close>

lemma FieldError_Equal_loop_iff:
  "FieldError_Equal_loop e other i \<longleftrightarrow> (\<forall>j<length e. i \<le> j \<longrightarrow> e ! j = other ! j)"
proof (induction e other i rule: FieldError_Equal_loop.induct)
  case (1 e other i)
  show ?case
  proof (cases "i < length e")
    case False
    then show ?thesis by (subst FieldError_Equal_loop.simps) simp
  next
    case True
    show ?thesis
    proof (cases "e ! i = other ! i")
      case False
      with True show ?thesis by (subst FieldError_Equal_loop.simps) auto
    next
      case same: True
      have "FieldError_Equal_loop e other i = FieldError_Equal_loop e other (i + 1)"
        using True same by (subst FieldError_Equal_loop.simps) simp
      also have "\<dots> \<longleftrightarrow> (\<forall>j<length e. i + 1 \<le> j \<longrightarrow> e ! j = other ! j)"
        using "1.IH" True same by simp
      also have "\<dots> \<longleftrightarrow> (\<forall>j<length e. i \<le> j \<longrightarrow> e ! j = other ! j)"
        using same by (auto simp: Suc_le_eq le_less)
      finally show ?thesis .
    qed
  qed
qed

text \<open>
  C9. \<open>FieldError.Equal\<close> holds exactly when the two values have the same length and
  the same description at every index, that is, when they are the same sequence of
  descriptions: the order matters and a repeated description counts each time it occurs.
\<close>

theorem FieldError_Equal_iff:
  "FieldError_Equal e f = (length e = length f \<and> (\<forall>i<length e. e ! i = f ! i)) \<and>
   FieldError_Equal e f = (e = f) \<and>
   (FieldError_Equal e f \<longrightarrow> (\<forall>d. count_list e d = count_list f d))"
proof -
  have a: "FieldError_Equal e f = (length e = length f \<and> (\<forall>i<length e. e ! i = f ! i))"
    by (simp add: FieldError_Equal_def FieldError_Equal_loop_iff)
  then have b: "FieldError_Equal e f = (e = f)"
    by (simp add: list_eq_iff_nth_eq)
  from b have c: "FieldError_Equal e f \<longrightarrow> (\<forall>d. count_list e d = count_list f d)"
    by auto
  from a b c show ?thesis by blast
qed

theorem FieldError_Equal_iff_witness:
  "FieldError_Equal [''Empty name.'', ''x''] [''Empty name.'', ''x''] \<and>
   count_list [''Empty name.'', ''x''] ''x'' = count_list [''Empty name.'', ''x''] ''x'' \<and>
   \<not> FieldError_Equal [''Empty name.'', ''x''] [''x'', ''Empty name.''] \<and>
   \<not> FieldError_Equal [''x'', ''x''] [''x'']"
proof -
  have e: "FieldError_Equal e f = (e = f)" for e f
    using FieldError_Equal_iff [of e f] by blast
  show ?thesis by (simp add: e)
qed

section \<open>Properties of Account\<close>

lemma validate_eq:
  "validate a = (if name a = [] then Some (FieldError [EmptyNameError]) else None)"
  by (simp add: validate_def)

text \<open>
  C8. \<open>IsOpen\<close> holds exactly when the end of the account's time range is not valid,
  that is, when no close time is set. It is a check of that flag alone: whatever start
  and whatever time the end carries, the result is the negation of the flag.
\<close>

theorem IsOpen_iff_no_close:
  "IsOpen a = (\<not> Valid (End (timeRange a))) \<and>
   IsOpen (a\<lparr>timeRange := \<lparr>Start = s, End = \<lparr>Valid = v, Time = t\<rparr>\<rparr>\<rparr>) = (\<not> v)"
  by (simp add: IsOpen_def)

theorem IsOpen_iff_no_close_witness:
  "IsOpen \<lparr>name = ''A'', timeRange = Range_zero, currencyCode = ''EUR''\<rparr> \<and>
   \<not> IsOpen \<lparr>name = ''A'',
       timeRange = \<lparr>Start = \<lparr>Valid = True, Time = \<lparr>instant = 100, zone = 0\<rparr>\<rparr>,
                    End = \<lparr>Valid = True, Time = \<lparr>instant = 200, zone = 0\<rparr>\<rparr>\<rparr>,
       currencyCode = ''EUR''\<rparr>"
  using IsOpen_iff_no_close
      [of "\<lparr>name = ''A'', timeRange = Range_zero, currencyCode = ''EUR''\<rparr>"]
    IsOpen_iff_no_close
      [of "\<lparr>name = ''A'',
       timeRange = \<lparr>Start = \<lparr>Valid = True, Time = \<lparr>instant = 100, zone = 0\<rparr>\<rparr>,
                    End = \<lparr>Valid = True, Time = \<lparr>instant = 200, zone = 0\<rparr>\<rparr>\<rparr>,
       currencyCode = ''EUR''\<rparr>"]
  by (simp add: Range_zero_def NullTime_zero_def)

text \<open>
  C7. \<open>Equal\<close> holds exactly when the two names are the same string and the two time
  ranges are equal (by the range's own \<open>Equal\<close>). The currency codes play no role:
  replacing them on either side leaves the result unchanged.
\<close>

theorem Account_Equal_iff:
  "Account_Equal Range_Equal a b =
     (name a = name b \<and> Range_Equal (timeRange a) (timeRange b)) \<and>
   Account_Equal Range_Equal (a\<lparr>currencyCode := c\<rparr>) (b\<lparr>currencyCode := d\<rparr>) =
     Account_Equal Range_Equal a b"
  by (simp add: Account_Equal_def Name_def TimeRange_def)

theorem Account_Equal_iff_witness:
  "Account_Equal sample_Range_Equal
     \<lparr>name = ''A'', timeRange = Range_zero, currencyCode = ''EUR''\<rparr>
     \<lparr>name = ''A'', timeRange = Range_zero, currencyCode = ''GBP''\<rparr> \<and>
   \<not> Account_Equal sample_Range_Equal
     \<lparr>name = ''A'', timeRange = Range_zero, currencyCode = ''EUR''\<rparr>
     \<lparr>name = ''B'', timeRange = Range_zero, currencyCode = ''EUR''\<rparr> \<and>
   \<not> Account_Equal sample_Range_Equal
     \<lparr>name = ''A'', timeRange = Range_zero, currencyCode = ''EUR''\<rparr>
     \<lparr>name = ''A'',
      timeRange = \<lparr>Start = NullTime_zero, End = \<lparr>Valid = True, Time = \<lparr>instant = 200, zone = 0\<rparr>\<rparr>\<rparr>,
      currencyCode = ''EUR''\<rparr>"
  using Account_Equal_iff [of sample_Range_Equal
      "\<lparr>name = ''A'', timeRange = Range_zero, currencyCode = ''EUR''\<rparr>"
      "\<lparr>name = ''A'', timeRange = Range_zero, currencyCode = ''GBP''\<rparr>"]
    Account_Equal_iff [of sample_Range_Equal
      "\<lparr>name = ''A'', timeRange = Range_zero, currencyCode = ''EUR''\<rparr>"
      "\<lparr>name = ''B'', timeRange = Range_zero, currencyCode = ''EUR''\<rparr>"]
    Account_Equal_iff [of sample_Range_Equal
      "\<lparr>name = ''A'', timeRange = Range_zero, currencyCode = ''EUR''\<rparr>"
      "\<lparr>name = ''A'',
      timeRange = \<lparr>Start = NullTime_zero, End = \<lparr>Valid = True, Time = \<lparr>instant = 200, zone = 0\<rparr>\<rparr>\<rparr>,
      currencyCode = ''EUR''\<rparr>"]
  by (simp add: sample_Range_Equal_def sample_NullTime_Equal_def Range_zero_def NullTime_zero_def)

text \<open>
  C4. \<open>ValidateBalance\<close> first validates the account: when that fails it returns the
  account's error, whatever the Balance and whatever the range contains. Otherwise it
  returns no error exactly when the range contains the Balance's date or the account has
  a close time at the same instant as the Balance's date; any error it returns then is
  \<open>DateOutOfAccountTimeRange\<close> with the Balance's date and the account's time range.
\<close>

theorem ValidateBalance_cases:
  "(validate a = Some err \<longrightarrow>
      (\<forall>Contains' b'. ValidateBalance Contains' a b' = Some err)) \<and>
   (validate a = None \<longrightarrow>
      (ValidateBalance Contains a b = None) =
        (Contains (timeRange a) (Date b) \<or>
         (Valid (Closed a) \<and> Time_Equal (Time (Closed a)) (Date b))) \<and>
      (ValidateBalance Contains a b \<noteq> None \<longrightarrow>
         ValidateBalance Contains a b =
           Some (DateOutOfAccountTimeRange (Date b) (timeRange a))))"
  by (auto simp: ValidateBalance_def)

theorem ValidateBalance_cases_witness:
  "ValidateBalance sample_Contains
     \<lparr>name = [], timeRange = Range_zero, currencyCode = ''EUR''\<rparr>
     \<lparr>Date = \<lparr>instant = 100, zone = 0\<rparr>, Amount = 1\<rparr>
     = Some (FieldError [''Empty name.'']) \<and>
   ValidateBalance sample_Contains
     \<lparr>name = ''Test Account'',
      timeRange = \<lparr>Start = \<lparr>Valid = True, Time = \<lparr>instant = 100, zone = 0\<rparr>\<rparr>,
                   End = \<lparr>Valid = True, Time = \<lparr>instant = 200, zone = 0\<rparr>\<rparr>\<rparr>,
      currencyCode = ''EUR''\<rparr>
     \<lparr>Date = \<lparr>instant = 100, zone = 0\<rparr>, Amount = 98737879\<rparr> = None \<and>
   \<not> sample_Contains
     \<lparr>Start = \<lparr>Valid = True, Time = \<lparr>instant = 100, zone = 0\<rparr>\<rparr>,
      End = \<lparr>Valid = True, Time = \<lparr>instant = 200, zone = 0\<rparr>\<rparr>\<rparr>
     \<lparr>instant = 200, zone = 1\<rparr> \<and>
   ValidateBalance sample_Contains
     \<lparr>name = ''Test Account'',
      timeRange = \<lparr>Start = \<lparr>Valid = True, Time = \<lparr>instant = 100, zone = 0\<rparr>\<rparr>,
                   End = \<lparr>Valid = True, Time = \<lparr>instant = 200, zone = 0\<rparr>\<rparr>\<rparr>,
      currencyCode = ''EUR''\<rparr>
     \<lparr>Date = \<lparr>instant = 200, zone = 1\<rparr>, Amount = - 9876\<rparr> = None \<and>
   ValidateBalance sample_Contains
     \<lparr>name = ''Test Account'',
      timeRange = \<lparr>Start = \<lparr>Valid = True, Time = \<lparr>instant = 100, zone = 0\<rparr>\<rparr>,
                   End = \<lparr>Valid = True, Time = \<lparr>instant = 200, zone = 0\<rparr>\<rparr>\<rparr>,
      currencyCode = ''EUR''\<rparr>
     \<lparr>Date = \<lparr>instant = 300, zone = 0\<rparr>, Amount = - 987654\<rparr>
     = Some (DateOutOfAccountTimeRange \<lparr>instant = 300, zone = 0\<rparr>
         \<lparr>Start = \<lparr>Valid = True, Time = \<lparr>instant = 100, zone = 0\<rparr>\<rparr>,
          End = \<lparr>Valid = True, Time = \<lparr>instant = 200, zone = 0\<rparr>\<rparr>\<rparr>)"
proof -
  let ?bad = "\<lparr>name = [], timeRange = Range_zero, currencyCode = ''EUR''\<rparr>"
  let ?tr = "\<lparr>Start = \<lparr>Valid = True, Time = \<lparr>instant = 100, zone = 0\<rparr>\<rparr>,
              End = \<lparr>Valid = True, Time = \<lparr>instant = 200, zone = 0\<rparr>\<rparr>\<rparr>"
  let ?a = "\<lparr>name = ''Test Account'', timeRange = ?tr, currencyCode = ''EUR''\<rparr>"
  have bad: "validate ?bad = Some (FieldError [''Empty name.''])"
    by (simp add: validate_eq EmptyNameError_def)
  have ok: "validate ?a = None"
    by (simp add: validate_eq)
  have c: "\<not> sample_Contains ?tr \<lparr>instant = 200, zone = 1\<rparr>"
    by (simp add: sample_Contains_def After_def)
  have 1: "ValidateBalance sample_Contains ?bad
             \<lparr>Date = \<lparr>instant = 100, zone = 0\<rparr>, Amount = 1\<rparr> = Some (FieldError [''Empty name.''])"
    using ValidateBalance_cases [of ?bad "FieldError [''Empty name.'']"] bad by blast
  have 2: "ValidateBalance sample_Contains ?a
             \<lparr>Date = \<lparr>instant = 100, zone = 0\<rparr>, Amount = 98737879\<rparr> = None"
    using ValidateBalance_cases
        [of ?a _ sample_Contains "\<lparr>Date = \<lparr>instant = 100, zone = 0\<rparr>, Amount = 98737879\<rparr>"] ok
    by (simp add: sample_Contains_def After_def)
  have 3: "ValidateBalance sample_Contains ?a
             \<lparr>Date = \<lparr>instant = 200, zone = 1\<rparr>, Amount = - 9876\<rparr> = None"
    using ValidateBalance_cases
        [of ?a _ sample_Contains "\<lparr>Date = \<lparr>instant = 200, zone = 1\<rparr>, Amount = - 9876\<rparr>"] ok
    by (simp add: Closed_def Time_Equal_def)
  have 4: "ValidateBalance sample_Contains ?a
             \<lparr>Date = \<lparr>instant = 300, zone = 0\<rparr>, Amount = - 987654\<rparr>
           = Some (DateOutOfAccountTimeRange \<lparr>instant = 300, zone = 0\<rparr> ?tr)"
    using ValidateBalance_cases
        [of ?a _ sample_Contains "\<lparr>Date = \<lparr>instant = 300, zone = 0\<rparr>, Amount = - 987654\<rparr>"] ok
    by (simp add: sample_Contains_def After_def Closed_def Time_Equal_def)
  from 1 2 c 3 4 show ?thesis by blast
qed

subsection \<open>Construction\<close>

lemma applyOptions_append:
  "applyOptions pre a = (a1, None) \<Longrightarrow> applyOptions (pre @ os) a = applyOptions os a1"
  by (induction pre a rule: applyOptions.induct) (auto split: prod.splits option.splits)

lemma applyOptions_first_failure:
  "applyOptions pre a = (a1, None) \<Longrightarrow> opt a1 = (a2, Some err) \<Longrightarrow>
     applyOptions (pre @ Some opt # post) a = (a2, Some err)"
  by (simp add: applyOptions_append)

lemma New_unfold:
  "length (TrimSpace nm) \<noteq> 0 \<Longrightarrow> gtime_Start opened Range_zero = (tr, None) \<Longrightarrow>
   New TrimSpace gtime_Start nm cc opened os =
     (case applyOptions os \<lparr>name = TrimSpace nm, timeRange = tr, currencyCode = cc\<rparr> of
        (a', Some err) \<Rightarrow> (None, Some err)
      | (a', None) \<Rightarrow>
          (case validate a' of Some err \<Rightarrow> (None, Some err) | None \<Rightarrow> (Some a', None)))"
  by (simp add: New_def Let_def)

lemma New_atomic:
  "(fst (New TrimSpace gtime_Start nm cc opened os) = None) =
   (snd (New TrimSpace gtime_Start nm cc opened os) \<noteq> None)"
  by (auto simp: New_def Let_def split: prod.splits option.splits)

lemma New_success_full:
  "New TrimSpace gtime_Start nm cc opened os = (Some acc, e) \<Longrightarrow>
     e = None \<and> length (TrimSpace nm) \<noteq> 0 \<and> validate acc = None \<and>
     (\<exists>tr'. gtime_Start opened Range_zero = (tr', None) \<and>
        applyOptions os \<lparr>name = TrimSpace nm, timeRange = tr', currencyCode = cc\<rparr>
          = (acc, None))"
  by (auto simp: New_def Let_def split: prod.splits option.splits if_splits)

text \<open>
  C5. \<open>New\<close> returns an account or an error, never both, and never a partly built
  account. A name whose trimmed form is empty gives the empty-name error and no account.
  When the options before some option succeed and that option fails, \<open>New\<close> returns
  that option's error and no account, whatever options follow. When every option
  succeeds and the final validation fails, \<open>New\<close> returns the validation error and no
  account. The account is missing exactly when an error is returned. An account that is
  returned comes without error, has a non-empty name, passes validation and is the
  result of starting the range and running every option with success; conversely, when
  all of these succeed, that account is returned.
\<close>

theorem New_all_or_nothing:
  "(length (TrimSpace nm) = 0 \<longrightarrow>
      New TrimSpace gtime_Start nm cc opened os = (None, Some (errorString EmptyNameError))) \<and>
   (length (TrimSpace nm) \<noteq> 0 \<and> gtime_Start opened Range_zero = (tr, None) \<and>
    applyOptions pre \<lparr>name = TrimSpace nm, timeRange = tr, currencyCode = cc\<rparr> = (am, None) \<and>
    opt am = (af, Some err) \<longrightarrow>
      New TrimSpace gtime_Start nm cc opened (pre @ Some opt # post) = (None, Some err)) \<and>
   (length (TrimSpace nm) \<noteq> 0 \<and> gtime_Start opened Range_zero = (tr, None) \<and>
    applyOptions os \<lparr>name = TrimSpace nm, timeRange = tr, currencyCode = cc\<rparr> = (a', None) \<and>
    validate a' = Some verr \<longrightarrow>
      New TrimSpace gtime_Start nm cc opened os = (None, Some verr)) \<and>
   (fst (New TrimSpace gtime_Start nm cc opened os) = None) =
     (snd (New TrimSpace gtime_Start nm cc opened os) \<noteq> None) \<and>
   (New TrimSpace gtime_Start nm cc opened os = (Some acc, e) \<longrightarrow>
      e = None \<and> length (TrimSpace nm) \<noteq> 0 \<and> validate acc = None \<and> name acc \<noteq> [] \<and>
      (\<exists>tr'. gtime_Start opened Range_zero = (tr', None) \<and>
         applyOptions os \<lparr>name = TrimSpace nm, timeRange = tr', currencyCode = cc\<rparr>
           = (acc, None))) \<and>
   (length (TrimSpace nm) \<noteq> 0 \<and> gtime_Start opened Range_zero = (tr, None) \<and>
    applyOptions os \<lparr>name = TrimSpace nm, timeRange = tr, currencyCode = cc\<rparr> = (a', None) \<and>
    validate a' = None \<longrightarrow>
      New TrimSpace gtime_Start nm cc opened os = (Some a', None))"
proof (intro conjI impI)
  assume "length (TrimSpace nm) = 0"
  then show "New TrimSpace gtime_Start nm cc opened os = (None, Some (errorString EmptyNameError))"
    by (simp add: New_def)
next
  assume h: "length (TrimSpace nm) \<noteq> 0 \<and> gtime_Start opened Range_zero = (tr, None) \<and>
    applyOptions pre \<lparr>name = TrimSpace nm, timeRange = tr, currencyCode = cc\<rparr> = (am, None) \<and>
    opt am = (af, Some err)"
  then have "applyOptions (pre @ Some opt # post)
               \<lparr>name = TrimSpace nm, timeRange = tr, currencyCode = cc\<rparr> = (af, Some err)"
    by (simp add: applyOptions_first_failure)
  with h show "New TrimSpace gtime_Start nm cc opened (pre @ Some opt # post) = (None, Some err)"
    by (simp add: New_unfold)
next
  assume h: "length (TrimSpace nm) \<noteq> 0 \<and> gtime_Start opened Range_zero = (tr, None) \<and>
    applyOptions os \<lparr>name = TrimSpace nm, timeRange = tr, currencyCode = cc\<rparr> = (a', None) \<and>
    validate a' = Some verr"
  then show "New TrimSpace gtime_Start nm cc opened os = (None, Some verr)"
    by (simp add: New_unfold)
next
  show "(fst (New TrimSpace gtime_Start nm cc opened os) = None) =
     (snd (New TrimSpace gtime_Start nm cc opened os) \<noteq> None)"
    by (rule New_atomic)
next
  assume s: "New TrimSpace gtime_Start nm cc opened os = (Some acc, e)"
  note f = New_success_full [OF s]
  show "e = None" using f by blast
  show "length (TrimSpace nm) \<noteq> 0" using f by blast
  show "validate acc = None" using f by blast
  then show "name acc \<noteq> []" by (simp add: validate_eq split: if_splits)
  show "\<exists>tr'. gtime_Start opened Range_zero = (tr', None) \<and>
         applyOptions os \<lparr>name = TrimSpace nm, timeRange = tr', currencyCode = cc\<rparr>
           = (acc, None)" using f by blast
next
  assume h: "length (TrimSpace nm) \<noteq> 0 \<and> gtime_Start opened Range_zero = (tr, None) \<and>
    applyOptions os \<lparr>name = TrimSpace nm, timeRange = tr, currencyCode = cc\<rparr> = (a', None) \<and>
    validate a' = None"
  then show "New TrimSpace gtime_Start nm cc opened os = (Some a', None)"
    by (simp add: New_unfold)
qed

theorem New_all_or_nothing_witness:
  "New sample_TrimSpace sample_Start ''  '' ''EUR'' \<lparr>instant = 100, zone = 0\<rparr> []
     = (None, Some (errorString ''Empty name.'')) \<and>
   New sample_TrimSpace sample_Start '' TEST_ACCOUNT'' ''EUR'' \<lparr>instant = 100, zone = 0\<rparr>
     [Some (CloseTime sample_End \<lparr>instant = 200, zone = 0\<rparr>), None,
      Some (\<lambda>a. (a, Some (errorString ''TEST ERROR'')))]
     = (None, Some (errorString ''TEST ERROR'')) \<and>
   New sample_TrimSpace sample_Start '' TEST_ACCOUNT'' ''EUR'' \<lparr>instant = 100, zone = 0\<rparr>
     [Some (\<lambda>a. (a\<lparr>name := []\<rparr>, None))]
     = (None, Some (FieldError [''Empty name.''])) \<and>
   New sample_TrimSpace sample_Start '' TEST_ACCOUNT'' ''EUR'' \<lparr>instant = 100, zone = 0\<rparr>
     [Some (CloseTime sample_End \<lparr>instant = 200, zone = 0\<rparr>)]
     = (Some \<lparr>name = ''TEST_ACCOUNT'',
              timeRange = \<lparr>Start = \<lparr>Valid = True, Time = \<lparr>instant = 100, zone = 0\<rparr>\<rparr>,
                           End = \<lparr>Valid = True, Time = \<lparr>instant = 200, zone = 0\<rparr>\<rparr>\<rparr>,
              currencyCode = ''EUR''\<rparr>, None) \<and>
   validate \<lparr>name = ''TEST_ACCOUNT'',
             timeRange = \<lparr>Start = \<lparr>Valid = True, Time = \<lparr>instant = 100, zone = 0\<rparr>\<rparr>,
                          End = \<lparr>Valid = True, Time = \<lparr>instant = 200, zone = 0\<rparr>\<rparr>\<rparr>,
             currencyCode = ''EUR''\<rparr> = None \<and>
   (\<exists>tr'. sample_Start \<lparr>instant = 100, zone = 0\<rparr> Range_zero = (tr', None) \<and>
      applyOptions [Some (CloseTime sample_End \<lparr>instant = 200, zone = 0\<rparr>)]
        \<lparr>name = sample_TrimSpace '' TEST_ACCOUNT'', timeRange = tr', currencyCode = ''EUR''\<rparr>
        = (\<lparr>name = ''TEST_ACCOUNT'',
            timeRange = \<lparr>Start = \<lparr>Valid = True, Time = \<lparr>instant = 100, zone = 0\<rparr>\<rparr>,
                         End = \<lparr>Valid = True, Time = \<lparr>instant = 200, zone = 0\<rparr>\<rparr>\<rparr>,
            currencyCode = ''EUR''\<rparr>, None))"
proof -
  let ?t = "\<lparr>instant = 100, zone = 0\<rparr> :: Time"
  let ?u = "\<lparr>instant = 200, zone = 0\<rparr> :: Time"
  let ?tr = "\<lparr>Start = \<lparr>Valid = True, Time = ?t\<rparr>, End = NullTime_zero\<rparr>"
  let ?tr2 = "\<lparr>Start = \<lparr>Valid = True, Time = ?t\<rparr>, End = \<lparr>Valid = True, Time = ?u\<rparr>\<rparr>"
  let ?a0 = "\<lparr>name = sample_TrimSpace '' TEST_ACCOUNT'', timeRange = ?tr, currencyCode = ''EUR''\<rparr>"
  let ?a2 = "\<lparr>name = ''TEST_ACCOUNT'', timeRange = ?tr2, currencyCode = ''EUR''\<rparr>"
  let ?ab = "\<lparr>name = [], timeRange = ?tr, currencyCode = ''EUR''\<rparr>"
  let ?close = "CloseTime sample_End ?u :: string Option"
  let ?fail = "(\<lambda>a. (a, Some (errorString ''TEST ERROR''))) :: string Option"
  let ?blank = "(\<lambda>a. (a\<lparr>name := []\<rparr>, None)) :: string Option"
  have trim0: "length (sample_TrimSpace ''  '') = 0"
    by (simp add: sample_TrimSpace_def)
  have trim: "sample_TrimSpace '' TEST_ACCOUNT'' = ''TEST_ACCOUNT''"
    by (simp add: sample_TrimSpace_def)
  then have ne: "length (sample_TrimSpace '' TEST_ACCOUNT'') \<noteq> 0"
    by simp
  have start: "sample_Start ?t Range_zero = (?tr, None)"
    by (simp add: sample_Start_def Range_zero_def)
  have close: "?close ?a0 = (?a2, None)"
    by (simp add: trim CloseTime_def sample_End_def Before_def)
  have run_close: "applyOptions [Some ?close] ?a0 = (?a2, None)"
    by (simp add: close)
  have run_pre: "applyOptions [Some ?close, None] ?a0 = (?a2, None)"
    by (simp add: close)
  have run_blank: "applyOptions [Some ?blank] ?a0 = (?ab, None)"
    by (simp add: trim)
  have bad: "validate ?ab = Some (FieldError [''Empty name.''])"
    by (simp add: validate_eq EmptyNameError_def)
  have good: "validate ?a2 = None"
    by (simp add: validate_eq)
  have "New sample_TrimSpace sample_Start ''  '' ''EUR'' ?t []
          = (None, Some (errorString EmptyNameError))"
    using trim0
    by (rule New_all_or_nothing [THEN conjunct1, THEN mp])
  then have 1: "New sample_TrimSpace sample_Start ''  '' ''EUR'' ?t []
                  = (None, Some (errorString ''Empty name.''))"
    by (simp only: EmptyNameError_def)
  have "New sample_TrimSpace sample_Start '' TEST_ACCOUNT'' ''EUR'' ?t
          ([Some ?close, None] @ Some ?fail # []) = (None, Some (errorString ''TEST ERROR''))"
    by (rule New_all_or_nothing [where tr = ?tr and am = ?a2 and af = ?a2,
          THEN conjunct2, THEN conjunct1, THEN mp])
       (intro conjI ne start run_pre refl)
  then have 2: "New sample_TrimSpace sample_Start '' TEST_ACCOUNT'' ''EUR'' ?t
                  [Some ?close, None, Some ?fail] = (None, Some (errorString ''TEST ERROR''))"
    by simp
  have 3: "New sample_TrimSpace sample_Start '' TEST_ACCOUNT'' ''EUR'' ?t [Some ?blank]
             = (None, Some (FieldError [''Empty name.'']))"
    by (rule New_all_or_nothing [where tr = ?tr and a' = ?ab,
          THEN conjunct2, THEN conjunct2, THEN conjunct1, THEN mp])
       (intro conjI ne start run_blank bad)
  have 4: "New sample_TrimSpace sample_Start '' TEST_ACCOUNT'' ''EUR'' ?t [Some ?close]
             = (Some ?a2, None)"
    by (rule New_all_or_nothing [where tr = ?tr and a' = ?a2,
          THEN conjunct2, THEN conjunct2, THEN conjunct2,
          THEN conjunct2, THEN conjunct2, THEN mp])
       (intro conjI ne start run_close good)
  note s = New_all_or_nothing [THEN conjunct2, THEN conjunct2, THEN conjunct2,
      THEN conjunct2, THEN conjunct1, THEN mp, OF 4]
  have 5: "validate ?a2 = None"
    using s by (elim conjE)
  have 6: "\<exists>tr'. sample_Start ?t Range_zero = (tr', None) \<and>
        applyOptions [Some ?close]
          \<lparr>name = sample_TrimSpace '' TEST_ACCOUNT'', timeRange = tr', currencyCode = ''EUR''\<rparr>
          = (?a2, None)"
    using s by (elim conjE)
  show ?thesis
    by (intro conjI 1 2 3 4 5 6)
qed

end
